theory Spec2Isabelle
  imports Complex_Main
begin

section \<open>ERA5-To-SHETRAN: the two conversion scripts\<close>

text \<open>
  The repository holds two near-identical scripts, \<^verbatim>\<open>ERA5-To-SHETRAN.py\<close> and
  \<^verbatim>\<open>ERA5-Land-To-SHETRAN.py\<close>. Each opens a netCDF file, turns the file's relative
  time axis (hours since 1900-01-01 00:00:00) into absolute timestamps by looking every
  time-step up in a pre-built hourly calendar, finds the positions of a start and an end
  timestamp, calls a plotting routine and a conversion routine of the module
  \<^verbatim>\<open>CustomFunctionsToSHETRAN\<close>, and closes the file.

  The scripts have no function definitions: the model gives every source expression a
  definition named after the variable the script assigns it to.
\<close>

subsection \<open>Exceptions\<close>

text \<open>
  The exceptions of Python that the scripts can raise. \<open>Failure\<close> stands for whatever
  the routines of \<^verbatim>\<open>CustomFunctionsToSHETRAN\<close> raise.
\<close>

datatype exn = KeyError | IndexError | OSError | RuntimeError | Failure string

text \<open>Python's class hierarchy: \<open>KeyError\<close> and \<open>IndexError\<close> derive from \<open>LookupError\<close>.\<close>

fun LookupError_class :: "exn \<Rightarrow> bool" where
  "LookupError_class KeyError = True"
| "LookupError_class IndexError = True"
| "LookupError_class _ = False"

subsection \<open>Timestamps and the proleptic Gregorian calendar\<close>

text \<open>
  A pandas \<open>Timestamp\<close> is a count of nanoseconds since 1970-01-01 00:00:00; two
  timestamps are equal when their counts are. The scripts write their timestamps as
  strings \<^verbatim>\<open>'YYYY-MM-DD HH:MM:SS'\<close>, which pandas converts by the rules of the Gregorian
  calendar: \<open>pd_Timestamp y m d H M S\<close> is the timestamp of such a string.
\<close>

type_synonym Timestamp = int

definition is_leapyear :: "int \<Rightarrow> bool" where
  "is_leapyear y = (y mod 4 = 0 \<and> (y mod 100 \<noteq> 0 \<or> y mod 400 = 0))"

definition leap_years_before :: "int \<Rightarrow> int" where
  "leap_years_before y = (y - 1) div 4 - (y - 1) div 100 + (y - 1) div 400"

definition days_before_year :: "int \<Rightarrow> int" where
  "days_before_year y = 365 * (y - 1970) + (leap_years_before y - leap_years_before 1970)"

definition days_per_month :: "bool \<Rightarrow> int list" where
  "days_per_month leap = [31, if leap then 29 else 28, 31, 30, 31, 30, 31, 31, 30, 31, 30, 31]"

definition days_before_month :: "int \<Rightarrow> nat \<Rightarrow> int" where
  "days_before_month y m = sum_list (take (m - 1) (days_per_month (is_leapyear y)))"

definition days_from_civil :: "int \<Rightarrow> nat \<Rightarrow> nat \<Rightarrow> int" where
  "days_from_civil y m d = days_before_year y + days_before_month y m + (int d - 1)"

definition Second :: int where
  "Second = 1000000000"

definition Hour :: int where
  "Hour = 3600 * Second"

definition pd_Timestamp :: "int \<Rightarrow> nat \<Rightarrow> nat \<Rightarrow> nat \<Rightarrow> nat \<Rightarrow> nat \<Rightarrow> Timestamp" where
  "pd_Timestamp y m d H M S =
     days_from_civil y m d * (24 * Hour) + int H * Hour + int M * (60 * Second) + int S * Second"

subsection \<open>Data frames\<close>

text \<open>
  Both frames of the scripts have one column and the default index \<open>0, 1, ..., n - 1\<close>
  (\<open>RangeIndex\<close>): \<open>ERA5DateIndex\<close> is built from a \<open>DatetimeIndex\<close> with no column
  name, so its column is labelled with the integer \<open>0\<close>, and \<open>DfTimeIndex\<close> has the
  column \<^verbatim>\<open>'dateTime'\<close>.
\<close>

datatype label = IntLabel int | StrLabel string

record 'a DataFrame =
  column :: label
  rows :: "'a list"

text \<open>
  \<^verbatim>\<open>pd.date_range(start, end, freq)\<close> with a fixed-length frequency: \<open>start\<close>,
  \<open>start + freq\<close>, ... up to and including the last value not after the end \<open>stop\<close>.
\<close>

definition date_range :: "Timestamp \<Rightarrow> Timestamp \<Rightarrow> int \<Rightarrow> Timestamp list" where
  "date_range start stop freq =
     map (\<lambda>i. start + int i * freq) [0..<nat ((stop - start) div freq + 1)]"

text \<open>\<^verbatim>\<open>pd.DataFrame(values)\<close> of a sequence with no column names.\<close>

definition pd_DataFrame :: "'a list \<Rightarrow> 'a DataFrame" where
  "pd_DataFrame xs = \<lparr>column = IntLabel 0, rows = xs\<rparr>"

text \<open>\<^verbatim>\<open>pd.DataFrame(data = xs, columns = [c])\<close>.\<close>

definition pd_DataFrame_columns :: "'a list \<Rightarrow> string \<Rightarrow> 'a DataFrame" where
  "pd_DataFrame_columns xs c = \<lparr>column = StrLabel c, rows = xs\<rparr>"

text \<open>
  \<^verbatim>\<open>df.loc[t]\<close> selects the row whose index label is \<open>t\<close>. It is a lookup by label, not
  by position: a negative \<open>t\<close> does not count from the end. A label outside
  \<open>0 .. n - 1\<close> raises \<open>KeyError\<close>. The row is a series indexed by the column labels.
\<close>

definition has_row :: "'a DataFrame \<Rightarrow> int \<Rightarrow> bool" where
  "has_row df t = (0 \<le> t \<and> t < int (length (rows df)))"

definition loc :: "'a DataFrame \<Rightarrow> int \<Rightarrow> exn + (label \<times> 'a)" where
  "loc df t = (if has_row df t then Inr (column df, rows df ! nat t) else Inl KeyError)"

text \<open>\<^verbatim>\<open>row[k]\<close> on a row of a frame: the value under the column label \<open>k\<close>.\<close>

definition row_getitem :: "label \<times> 'a \<Rightarrow> label \<Rightarrow> exn + 'a" where
  "row_getitem row k = (if fst row = k then Inr (snd row) else Inl KeyError)"

text \<open>\<^verbatim>\<open>df[c]\<close>: the column labelled \<open>c\<close>.\<close>

definition df_getitem :: "'a DataFrame \<Rightarrow> label \<Rightarrow> exn + 'a list" where
  "df_getitem df c = (if column df = c then Inr (rows df) else Inl KeyError)"

text \<open>\<^verbatim>\<open>df.index[mask]\<close>: the index labels of the rows where the boolean mask holds.\<close>

definition index_mask :: "bool list \<Rightarrow> nat list" where
  "index_mask bs = filter (\<lambda>i. bs ! i) [0..<length bs]"

text \<open>
  \<^verbatim>\<open>xs[i]\<close> on a Python list: a negative index counts from the end, and an index
  outside the list raises \<open>IndexError\<close>.
\<close>

definition list_getitem :: "'a list \<Rightarrow> int \<Rightarrow> exn + 'a" where
  "list_getitem xs i =
     (if 0 \<le> i \<and> i < int (length xs) then Inr (xs ! nat i)
      else if i < 0 \<and> - int (length xs) \<le> i then Inr (xs ! nat (int (length xs) + i))
      else Inl IndexError)"

subsection \<open>The time-axis resolver\<close>

text \<open>
  The two scripts. They differ in the end of the reference calendar
  (\<^verbatim>\<open>ERA5-To-SHETRAN.py\<close> line 146, \<^verbatim>\<open>ERA5-Land-To-SHETRAN.py\<close> line 154), in where the
  boundary timestamps come from, and in the arguments of the conversion routine.
\<close>

datatype script = ERA5_To_SHETRAN | ERA5_Land_To_SHETRAN

definition epoch :: Timestamp where
  "epoch = pd_Timestamp 1900 1 1 0 0 0"

fun calendar_end :: "script \<Rightarrow> Timestamp" where
  "calendar_end ERA5_To_SHETRAN = pd_Timestamp 2022 1 1 0 0 0"
| "calendar_end ERA5_Land_To_SHETRAN = pd_Timestamp 2030 1 1 0 0 0"

text \<open>
  \<^verbatim>\<open>ERA5DateIndex = pd.DataFrame(pd.date_range(start='1900-01-01 00:00:00',
  end='2022-01-01 00:00:00', freq='H'))\<close>
\<close>

definition ERA5DateIndex :: "script \<Rightarrow> Timestamp DataFrame" where
  "ERA5DateIndex sc = pd_DataFrame (date_range epoch (calendar_end sc) Hour)"

text \<open>\<^verbatim>\<open>ERA5DateIndex.loc[t][0]\<close>: the body of the loop, for one time-step \<open>t\<close>.\<close>

definition resolve :: "Timestamp DataFrame \<Rightarrow> int \<Rightarrow> exn + Timestamp" where
  "resolve cal t =
     (case loc cal t of Inl e \<Rightarrow> Inl e | Inr row \<Rightarrow> row_getitem row (IntLabel 0))"

text \<open>
  A \<^verbatim>\<open>for\<close> loop over a list of indices, with the loop's variables as the state \<open>s\<close>.
  An exception in the body ends the loop.
\<close>

fun for_each :: "'i list \<Rightarrow> ('i \<Rightarrow> 's \<Rightarrow> exn + 's) \<Rightarrow> 's \<Rightarrow> exn + 's" where
  "for_each [] body s = Inr s"
| "for_each (i # is) body s =
     (case body i s of Inl e \<Rightarrow> Inl e | Inr s' \<Rightarrow> for_each is body s')"

text \<open>
  \<^verbatim>\<open>
  TimeIndex = []
  for Time in range(len(ERA5.variables['time'])):
      TimeIndex.append(ERA5DateIndex.loc[ERA5.variables['time'][Time]][0])
  \<close>
  \<open>time\<close> is the content of the file's time variable.
\<close>

definition TimeIndex :: "Timestamp DataFrame \<Rightarrow> int list \<Rightarrow> exn + Timestamp list" where
  "TimeIndex cal time =
     for_each [0..<length time]
       (\<lambda>Time acc. case resolve cal (time ! Time) of
                      Inl e \<Rightarrow> Inl e
                    | Inr d \<Rightarrow> Inr (acc @ [d]))
       []"

text \<open>\<^verbatim>\<open>DfTimeIndex = pd.DataFrame(data = TimeIndex, columns = ['dateTime'])\<close>\<close>

definition DfTimeIndex :: "Timestamp list \<Rightarrow> Timestamp DataFrame" where
  "DfTimeIndex ti = pd_DataFrame_columns ti ''dateTime''"

text \<open>
  \<^verbatim>\<open>DfTimeIndex.index[DfTimeIndex['dateTime'] == b].tolist()[0]\<close>: the expression that
  both \<open>StartIdx\<close> and \<open>EndIdx\<close> are computed with.
\<close>

definition boundary_index :: "Timestamp DataFrame \<Rightarrow> Timestamp \<Rightarrow> exn + nat" where
  "boundary_index df b =
     (case df_getitem df (StrLabel ''dateTime'') of
        Inl e \<Rightarrow> Inl e
      | Inr col \<Rightarrow> list_getitem (index_mask (map (\<lambda>x. x = b) col)) 0)"

text \<open>
  The label of the last row of the reference calendar: the number of whole hours from
  the epoch to the calendar's end.
\<close>

definition last_label :: "script \<Rightarrow> int" where
  "last_label sc = (calendar_end sc - epoch) div Hour"

subsection \<open>Boundary timestamps and their indices\<close>

text \<open>
  \<^verbatim>\<open>ERA5-To-SHETRAN.py\<close>, lines 161 and 162:
  \<^verbatim>\<open>StartTime = '2000-01-01 00:00:00'\<close>, \<^verbatim>\<open>EndTime = '2010-01-01 00:00:00'\<close>.
  \<^verbatim>\<open>ERA5-Land-To-SHETRAN.py\<close>, lines 169 and 170:
  \<^verbatim>\<open>StartTime = TimeIndex[0]\<close>, \<^verbatim>\<open>EndTime = TimeIndex[-1]\<close>.
\<close>

fun StartTime :: "script \<Rightarrow> Timestamp list \<Rightarrow> exn + Timestamp" where
  "StartTime ERA5_To_SHETRAN ti = Inr (pd_Timestamp 2000 1 1 0 0 0)"
| "StartTime ERA5_Land_To_SHETRAN ti = list_getitem ti 0"

fun EndTime :: "script \<Rightarrow> Timestamp list \<Rightarrow> exn + Timestamp" where
  "EndTime ERA5_To_SHETRAN ti = Inr (pd_Timestamp 2010 1 1 0 0 0)"
| "EndTime ERA5_Land_To_SHETRAN ti = list_getitem ti (- 1)"

text \<open>
  The four assignments \<open>StartTime\<close>, \<open>EndTime\<close>, \<open>StartIdx\<close>, \<open>EndIdx\<close> in the order
  of the source; the result is the pair \<open>(StartIdx, EndIdx)\<close>.
\<close>

definition boundaries :: "script \<Rightarrow> Timestamp list \<Rightarrow> exn + (nat \<times> nat)" where
  "boundaries sc ti =
     (case StartTime sc ti of
        Inl e \<Rightarrow> Inl e
      | Inr st \<Rightarrow>
          (case EndTime sc ti of
             Inl e \<Rightarrow> Inl e
           | Inr en \<Rightarrow>
               (case boundary_index (DfTimeIndex ti) st of
                  Inl e \<Rightarrow> Inl e
                | Inr StartIdx \<Rightarrow>
                    (case boundary_index (DfTimeIndex ti) en of
                       Inl e \<Rightarrow> Inl e
                     | Inr EndIdx \<Rightarrow> Inr (StartIdx, EndIdx)))))"

subsection \<open>The input file\<close>

text \<open>
  A variable of a netCDF file: the one-dimensional integer time axis, or a field on
  (time, latitude, longitude) given by its three dimensions and its values.
\<close>

datatype ncvar = Var1D "int list" | Var3D nat nat nat "nat \<Rightarrow> nat \<Rightarrow> nat \<Rightarrow> real"

record Dataset =
  isopen :: bool
  variables :: "string \<rightharpoonup> ncvar"

text \<open>\<^verbatim>\<open>Dataset(path)\<close>: opening a file that does not exist raises \<open>OSError\<close>.\<close>

definition Dataset_open :: "(string \<rightharpoonup> (string \<rightharpoonup> ncvar)) \<Rightarrow> string \<Rightarrow> exn + Dataset" where
  "Dataset_open files path =
     (case files path of
        None \<Rightarrow> Inl OSError
      | Some vars \<Rightarrow> Inr \<lparr>isopen = True, variables = vars\<rparr>)"

text \<open>\<^verbatim>\<open>ERA5.close()\<close>: closing a file that is not open raises \<open>RuntimeError\<close>.\<close>

definition Dataset_close :: "Dataset \<Rightarrow> exn + Dataset" where
  "Dataset_close ds = (if isopen ds then Inr (ds\<lparr>isopen := False\<rparr>) else Inl RuntimeError)"

text \<open>
  The values of \<^verbatim>\<open>ERA5.variables['time']\<close>, which the loop reads one by one. The
  dictionary lookup comes first: a missing variable raises \<open>KeyError\<close>, whether the file
  is open or not. Reading the values of a variable of a closed file raises
  \<open>RuntimeError\<close>. The scripts are written for a one-dimensional time axis; a
  \<^verbatim>\<open>'time'\<close> variable of another shape would give \<^verbatim>\<open>.loc\<close> an array for a label,
  which is reported here as \<open>Failure\<close>.
\<close>

definition time_variable :: "Dataset \<Rightarrow> exn + int list" where
  "time_variable ds =
     (case variables ds ''time'' of
        None \<Rightarrow> Inl KeyError
      | Some v \<Rightarrow>
          if \<not> isopen ds then Inl RuntimeError
          else (case v of
                  Var1D ts \<Rightarrow> Inr ts
                | Var3D nt nlat nlon a \<Rightarrow> Inl (Failure ''time is not one-dimensional'')))"

subsection \<open>The scripts as a whole\<close>

text \<open>The user-defined variables at the top of each script.\<close>

record config =
  DirectoryIn :: string
  DirectoryOut :: string
  FileNameIn :: string
  FileNameOut :: string
  ExtIn :: string

definition EvapList :: "string list" where
  "EvapList = [''pev'', ''e'', ''evabs'', ''evaow'', ''evavt'', ''evatc'']"

text \<open>
  The keyword arguments of the two routines imported from
  \<^verbatim>\<open>CustomFunctionsToSHETRAN\<close>. \<^verbatim>\<open>ERA5-To-SHETRAN.py\<close> passes no \<open>Dates\<close>.
\<close>

record PlotterArgs =
  p_Variable :: string
  p_Data :: Dataset
  p_Time :: int
  p_Lon :: int
  p_Lat :: int
  p_South :: int
  p_North :: int
  p_West :: int
  p_East :: int
  p_UnitConversion :: int

record ConverterArgs =
  c_Data :: Dataset
  c_Variable :: string
  c_Dates :: "Timestamp list option"
  c_LongitudeName :: string
  c_LatitudeName :: string
  c_Path :: string
  c_File :: string
  c_UnitConversion :: int

definition plotter_args :: "Dataset \<Rightarrow> PlotterArgs" where
  "plotter_args ERA5 =
     \<lparr>p_Variable = EvapList ! 1, p_Data = ERA5, p_Time = 0, p_Lon = 0, p_Lat = 0,
      p_South = 0, p_North = 72, p_West = 0, p_East = 53, p_UnitConversion = 1000\<rparr>"

definition converter_args :: "script \<Rightarrow> config \<Rightarrow> Dataset \<Rightarrow> Timestamp list \<Rightarrow> ConverterArgs" where
  "converter_args sc cfg ERA5 ti =
     \<lparr>c_Data = ERA5, c_Variable = EvapList ! 1,
      c_Dates = (case sc of ERA5_To_SHETRAN \<Rightarrow> None
                 | ERA5_Land_To_SHETRAN \<Rightarrow> Some (rows (DfTimeIndex ti))),
      c_LongitudeName = ''longitude'', c_LatitudeName = ''latitude'',
      c_Path = DirectoryOut cfg, c_File = FileNameOut cfg @ ''.csv'',
      c_UnitConversion = 1000\<rparr>"

text \<open>
  The statements of a script that can raise or that touch the input file, in the order
  of the source: opening the file, the loop that resolves the time axis (it reads the
  file), the boundary indices, the plot, the conversion, and \<^verbatim>\<open>ERA5.close()\<close>.
\<close>

datatype event = EvOpen | EvResolve | EvBoundary | EvPlot | EvConvert | EvClose

text \<open>
  A run is the list of the statements that were started, and either the exception that
  ended the script or the final values. The scripts have no \<^verbatim>\<open>try\<close>: \<open>stmt\<close> starts a
  statement, and goes on with the rest \<open>k\<close> of the script only when the statement did
  not raise.
\<close>

definition stmt ::
  "event \<Rightarrow> exn + 'a \<Rightarrow> ('a \<Rightarrow> event list \<times> (exn + 'b)) \<Rightarrow> event list \<times> (exn + 'b)" where
  "stmt ev r k =
     (case r of
        Inl e \<Rightarrow> ([ev], Inl e)
      | Inr x \<Rightarrow> (ev # fst (k x), snd (k x)))"

record final =
  f_ERA5 :: Dataset
  f_TimeIndex :: "Timestamp list"
  f_StartIdx :: nat
  f_EndIdx :: nat

text \<open>
  A whole script. \<open>files\<close> is the content of the disk; \<open>NetCDFPlotter\<close> and
  \<open>NetCDFToSHETRAN\<close> are the two imported routines, whose source is not part of the
  repository's scripts: each takes its arguments and returns or raises.
\<close>

definition main ::
  "script \<Rightarrow> config \<Rightarrow> (string \<rightharpoonup> (string \<rightharpoonup> ncvar)) \<Rightarrow>
   (PlotterArgs \<Rightarrow> exn + unit) \<Rightarrow> (ConverterArgs \<Rightarrow> exn + unit) \<Rightarrow>
   event list \<times> (exn + final)" where
  "main sc cfg files NetCDFPlotter NetCDFToSHETRAN =
     stmt EvOpen (Dataset_open files (DirectoryIn cfg @ FileNameIn cfg @ ExtIn cfg)) (\<lambda>ERA5.
     stmt EvResolve
       (case time_variable ERA5 of
          Inl e \<Rightarrow> Inl e
        | Inr time \<Rightarrow> TimeIndex (ERA5DateIndex sc) time) (\<lambda>ti.
     stmt EvBoundary (boundaries sc ti) (\<lambda>idx.
     stmt EvPlot (NetCDFPlotter (plotter_args ERA5)) (\<lambda>_.
     stmt EvConvert (NetCDFToSHETRAN (converter_args sc cfg ERA5 ti)) (\<lambda>_.
     stmt EvClose (Dataset_close ERA5) (\<lambda>released.
       ([], Inr \<lparr>f_ERA5 = released, f_TimeIndex = ti,
                 f_StartIdx = fst idx, f_EndIdx = snd idx\<rparr>)))))))"

text \<open>
  Whether a list of statements uses the file correctly, given whether the file is open
  before the first one: the file is opened only when it is not open, closed only when
  it is open, and handed to a statement that reads it only while it is open.
\<close>

fun file_usage_ok :: "bool \<Rightarrow> event list \<Rightarrow> bool" where
  "file_usage_ok opn [] = True"
| "file_usage_ok opn (EvOpen # es) = (\<not> opn \<and> file_usage_ok True es)"
| "file_usage_ok opn (EvResolve # es) = (opn \<and> file_usage_ok opn es)"
| "file_usage_ok opn (EvBoundary # es) = file_usage_ok opn es"
| "file_usage_ok opn (EvPlot # es) = (opn \<and> file_usage_ok opn es)"
| "file_usage_ok opn (EvConvert # es) = (opn \<and> file_usage_ok opn es)"
| "file_usage_ok opn (EvClose # es) = (opn \<and> file_usage_ok False es)"

subsection \<open>The conversion routine\<close>

text \<open>
  Modelled from the spec: \<open>NetCDFToSHETRAN\<close> is defined in the module
  \<^verbatim>\<open>CustomFunctionsToSHETRAN\<close>, which the scripts import and which is not among the
  source files. The specification (4.2) describes it: given a 3D array, a variable
  selector, a time-index range, and optionally a single spatial cell (else the full
  grid), it produces a table of scaled values, one row for each time-step of the range
  and one column for each cell; a missing variable name fails with \<open>KeyError\<close>, an
  out-of-range spatial cell with \<open>IndexError\<close>. The range is taken as the array slice
  from \<open>StartIdx\<close> to \<open>EndIdx\<close>, both included.
\<close>

datatype cells = SingleCell nat nat | FullGrid

definition grid_row :: "(nat \<Rightarrow> nat \<Rightarrow> nat \<Rightarrow> real) \<Rightarrow> nat \<Rightarrow> nat \<Rightarrow> real \<Rightarrow> nat \<Rightarrow> real list" where
  "grid_row a nlat nlon factor t =
     concat (map (\<lambda>i. map (\<lambda>j. a t i j * factor) [0..<nlon]) [0..<nlat])"

definition NetCDFToSHETRAN_table ::
  "Dataset \<Rightarrow> string \<Rightarrow> nat \<Rightarrow> nat \<Rightarrow> cells \<Rightarrow> real \<Rightarrow> exn + real list list" where
  "NetCDFToSHETRAN_table Data Variable StartIdx EndIdx mode UnitConversion =
     (case variables Data Variable of
        None \<Rightarrow> Inl KeyError
      | Some (Var1D ts) \<Rightarrow> Inl IndexError
      | Some (Var3D nt nlat nlon a) \<Rightarrow>
          (case mode of
             SingleCell i j \<Rightarrow>
               if i < nlat \<and> j < nlon
               then Inr (map (\<lambda>t. [a t i j * UnitConversion])
                           [StartIdx..<min (Suc EndIdx) nt])
               else Inl IndexError
           | FullGrid \<Rightarrow>
               Inr (map (grid_row a nlat nlon UnitConversion)
                      [StartIdx..<min (Suc EndIdx) nt])))"

text \<open>The number of grid cells of a variable: the cells of the spatial window of the file.\<close>

fun grid_cells :: "ncvar \<Rightarrow> nat" where
  "grid_cells (Var1D ts) = 0"
| "grid_cells (Var3D nt nlat nlon a) = nlat * nlon"

subsection \<open>Sample inputs\<close>

text \<open>
  A disk with one file whose time axis holds 2000-01-01 00:00 and 2010-01-01 00:00 (the
  two boundary timestamps of \<^verbatim>\<open>ERA5-To-SHETRAN.py\<close>) and a field \<^verbatim>\<open>'e'\<close> on a grid
  of 2 by 3 cells; routines that return, and a plotting routine that raises.
\<close>

definition sample_config :: config where
  "sample_config =
     \<lparr>DirectoryIn = ''in/'', DirectoryOut = ''out/'', FileNameIn = ''era5'',
      FileNameOut = ''evap'', ExtIn = ''.nc''\<rparr>"

definition sample_field :: "nat \<Rightarrow> nat \<Rightarrow> nat \<Rightarrow> real" where
  "sample_field t i j = real (t + i + j) / 1000"

definition sample_variables :: "string \<rightharpoonup> ncvar" where
  "sample_variables =
     [''time'' \<mapsto> Var1D [876576, 964248], ''e'' \<mapsto> Var3D 2 2 3 sample_field]"

definition sample_files :: "string \<rightharpoonup> (string \<rightharpoonup> ncvar)" where
  "sample_files = [''in/era5.nc'' \<mapsto> sample_variables]"

definition plotter_ok :: "PlotterArgs \<Rightarrow> exn + unit" where
  "plotter_ok a = Inr ()"

definition plotter_failing :: "PlotterArgs \<Rightarrow> exn + unit" where
  "plotter_failing a = Inl (Failure ''plot'')"

definition converter_ok :: "ConverterArgs \<Rightarrow> exn + unit" where
  "converter_ok a = Inr ()"

section \<open>Properties\<close>

subsection \<open>The calendar\<close>

text \<open>
  The timestamps that the scripts write down, as counts of nanoseconds. The first two are
  the well-known offsets of 1900-01-01 and 2000-01-01 from the Unix epoch
  (\<open>-2208988800\<close> and \<open>946684800\<close> seconds).
\<close>

lemmas calendar_defs =
  pd_Timestamp_def days_from_civil_def days_before_year_def leap_years_before_def
  days_before_month_def days_per_month_def is_leapyear_def Hour_def Second_def

text \<open>
  The calendar counts days as the Gregorian calendar does: 1970-01-01 00:00:00 is the
  origin, and the first day of a year comes 365 days after the first day of the year
  before, or 366 when that year is a leap year.
\<close>

lemma div_step:
  assumes "0 < n"
  shows "(y::int) div n = (y - 1) div n + (if n dvd y then 1 else 0)"
proof (cases "n dvd y")
  case True
  then obtain q where q: "y = n * q" by (auto simp: dvd_def)
  have "(n * q - 1) div n = q - 1"
  proof (rule int_div_pos_eq [of _ _ _ "n - 1"])
    show "n * q - 1 = n * (q - 1) + (n - 1)" by (simp add: algebra_simps)
  qed (use assms in auto)
  with q assms True show ?thesis by simp
next
  case False
  define r where "r = y mod n"
  have "0 \<le> r" and "r < n" and "r \<noteq> 0"
    using assms False by (simp_all add: r_def dvd_eq_mod_eq_0)
  then have r: "0 \<le> r - 1" "r - 1 < n" by simp_all
  have y: "y = n * (y div n) + r" by (simp add: r_def)
  have "(y - 1) div n = y div n"
  proof (rule int_div_pos_eq [of _ _ _ "r - 1"])
    show "y - 1 = n * (y div n) + (r - 1)" using y by simp
  qed (use r in auto)
  with False show ?thesis by simp
qed

lemma leap_years_step:
  "leap_years_before (y + 1) = leap_years_before y + (if is_leapyear y then 1 else 0)"
proof -
  have d1: "4 dvd y" if "100 dvd y"
    using dvd_trans [of 4 100 y] that by simp
  have d2: "100 dvd y" if "400 dvd y"
    using dvd_trans [of 100 400 y] that by simp
  have leap: "is_leapyear y \<longleftrightarrow> 4 dvd y \<and> (\<not> 100 dvd y \<or> 400 dvd y)"
    by (simp add: is_leapyear_def dvd_eq_mod_eq_0)
  have "leap_years_before (y + 1) = y div 4 - y div 100 + y div 400"
    by (simp add: leap_years_before_def)
  also have "\<dots> = leap_years_before y + ((if 4 dvd y then 1 else 0)
      - (if 100 dvd y then 1 else 0) + (if 400 dvd y then 1 else 0))"
    unfolding leap_years_before_def
    by (simp only: div_step [of 4 y] div_step [of 100 y] div_step [of 400 y])
  also have "(if 4 dvd y then 1 else 0) - (if 100 dvd y then 1 else 0)
      + (if 400 dvd y then 1 else (0::int)) = (if is_leapyear y then 1 else 0)"
    using d1 d2 by (cases "4 dvd y"; cases "100 dvd y"; cases "400 dvd y") (simp_all add: leap)
  finally show ?thesis .
qed

lemma year_step:
  "days_before_year (y + 1) = days_before_year y + (if is_leapyear y then 366 else 365)"
  by (simp add: days_before_year_def leap_years_step)

lemma unix_epoch: "pd_Timestamp 1970 1 1 0 0 0 = 0"
  by (simp add: calendar_defs)

lemma epoch_value: "epoch = - 2208988800000000000"
  by (simp add: epoch_def calendar_defs)

lemma Timestamp_2000_01_01: "pd_Timestamp 2000 1 1 0 0 0 = 946684800000000000"
  by (simp add: calendar_defs)

lemma Timestamp_2000_01_02: "pd_Timestamp 2000 1 2 0 0 0 = 946771200000000000"
  by (simp add: calendar_defs)

lemma Timestamp_2010_01_01: "pd_Timestamp 2010 1 1 0 0 0 = 1262304000000000000"
  by (simp add: calendar_defs)

lemma calendar_end_value:
  "calendar_end ERA5_To_SHETRAN = 1640995200000000000"
  "calendar_end ERA5_Land_To_SHETRAN = 1893456000000000000"
  by (simp_all add: calendar_defs)

lemma last_label_value:
  "last_label ERA5_To_SHETRAN = 1069440"
  "last_label ERA5_Land_To_SHETRAN = 1139568"
  by (simp_all add: last_label_def calendar_end_value epoch_value Hour_def Second_def
      del: calendar_end.simps)

lemma calendar_end_last_label: "calendar_end sc = epoch + last_label sc * Hour"
  by (cases sc)
     (simp_all add: last_label_value calendar_end_value epoch_value Hour_def Second_def
        del: calendar_end.simps)

lemma length_date_range: "length (date_range s e f) = nat ((e - s) div f + 1)"
  by (simp add: date_range_def)

lemma nth_date_range: "i < nat ((e - s) div f + 1) \<Longrightarrow> date_range s e f ! i = s + int i * f"
  by (simp add: date_range_def)

lemma column_calendar: "column (ERA5DateIndex sc) = IntLabel 0"
  by (simp add: ERA5DateIndex_def pd_DataFrame_def)

lemma length_calendar: "int (length (rows (ERA5DateIndex sc))) = last_label sc + 1"
proof -
  have "0 \<le> last_label sc"
    by (cases sc) (simp_all add: last_label_value)
  then show ?thesis
    by (simp add: ERA5DateIndex_def pd_DataFrame_def length_date_range last_label_def)
qed

lemma has_row_calendar: "has_row (ERA5DateIndex sc) t \<longleftrightarrow> 0 \<le> t \<and> t \<le> last_label sc"
  using length_calendar [of sc] by (auto simp: has_row_def)

lemma beyond_calendar_end: "calendar_end sc < epoch + t * Hour \<longleftrightarrow> last_label sc < t"
  by (simp add: calendar_end_last_label Hour_def Second_def)

lemma nth_calendar:
  assumes "has_row (ERA5DateIndex sc) t"
  shows "rows (ERA5DateIndex sc) ! nat t = epoch + t * Hour"
proof -
  from assms have "0 \<le> t" and "nat t < length (date_range epoch (calendar_end sc) Hour)"
    by (auto simp: has_row_def ERA5DateIndex_def pd_DataFrame_def)
  then show ?thesis
    by (simp add: ERA5DateIndex_def pd_DataFrame_def length_date_range nth_date_range)
qed

subsection \<open>One lookup\<close>

lemma resolve_eq:
  "column cal = IntLabel 0 \<Longrightarrow>
   resolve cal t = (if has_row cal t then Inr (rows cal ! nat t) else Inl KeyError)"
  by (simp add: resolve_def loc_def row_getitem_def)

lemma resolve_calendar:
  "resolve (ERA5DateIndex sc) t =
     (if 0 \<le> t \<and> t \<le> last_label sc then Inr (epoch + t * Hour) else Inl KeyError)"
  using nth_calendar [of sc t]
  by (simp add: resolve_eq [OF column_calendar] has_row_calendar)

subsection \<open>The loop\<close>

lemma for_each_collect:
  "for_each js (\<lambda>i acc. case g i of Inl e \<Rightarrow> Inl e | Inr d \<Rightarrow> Inr (acc @ [d])) acc =
     (case find (\<lambda>i. isl (g i)) js of
        Some i \<Rightarrow> Inl (projl (g i))
      | None \<Rightarrow> Inr (acc @ map (\<lambda>i. projr (g i)) js))"
proof (induction js arbitrary: acc)
  case Nil
  show ?case by simp
next
  case (Cons j js)
  show ?case
  proof (cases "g j")
    case (Inl e)
    then show ?thesis by simp
  next
    case (Inr d)
    then show ?thesis by (simp add: Cons.IH split: option.split)
  qed
qed

lemma map_upt_nth: "map (\<lambda>i. f (xs ! i)) [0..<length xs] = map f xs"
  by (rule nth_equalityI) simp_all

lemma TimeIndex_eq:
  assumes "column cal = IntLabel 0"
  shows "TimeIndex cal time =
     (if \<forall>t\<in>set time. has_row cal t then Inr (map (\<lambda>t. rows cal ! nat t) time)
      else Inl KeyError)"
proof (cases "\<forall>t\<in>set time. has_row cal t")
  case True
  then have ok: "\<And>t. t \<in> set time \<Longrightarrow> resolve cal t = Inr (rows cal ! nat t)"
    by (simp add: resolve_eq [OF assms])
  then have "find (\<lambda>i. isl (resolve cal (time ! i))) [0..<length time] = None"
    by (simp add: find_None_iff)
  moreover have "map (\<lambda>i. projr (resolve cal (time ! i))) [0..<length time]
               = map (\<lambda>t. projr (resolve cal t)) time"
    by (rule map_upt_nth)
  moreover have "map (\<lambda>t. projr (resolve cal t)) time = map (\<lambda>t. rows cal ! nat t) time"
    by (rule map_cong) (simp_all add: ok)
  ultimately show ?thesis
    using True by (simp add: TimeIndex_def for_each_collect)
next
  case False
  then obtain i where i: "i < length time" "\<not> has_row cal (time ! i)"
    by (auto simp: in_set_conv_nth)
  then have "\<exists>j\<in>set [0..<length time]. isl (resolve cal (time ! j))"
    by (auto simp: resolve_eq [OF assms] intro!: bexI [of _ i])
  then obtain j where "find (\<lambda>i. isl (resolve cal (time ! i))) [0..<length time] = Some j"
    by (cases "find (\<lambda>i. isl (resolve cal (time ! i))) [0..<length time]")
       (auto simp: find_None_iff)
  moreover from this have "isl (resolve cal (time ! j))"
    by (auto simp: find_Some_iff)
  then have "projl (resolve cal (time ! j)) = KeyError"
    by (auto simp: resolve_eq [OF assms] split: if_splits)
  ultimately show ?thesis
    using False by (simp add: TimeIndex_def for_each_collect)
qed

lemma TimeIndex_calendar:
  "TimeIndex (ERA5DateIndex sc) time =
     (if \<forall>t\<in>set time. 0 \<le> t \<and> t \<le> last_label sc
      then Inr (map (\<lambda>t. epoch + t * Hour) time)
      else Inl KeyError)"
proof -
  have "map (\<lambda>t. rows (ERA5DateIndex sc) ! nat t) time = map (\<lambda>t. epoch + t * Hour) time"
    if "\<forall>t\<in>set time. has_row (ERA5DateIndex sc) t"
    by (rule map_cong) (simp_all add: that nth_calendar)
  then show ?thesis
    by (simp add: TimeIndex_eq [OF column_calendar] has_row_calendar)
qed

subsection \<open>Claims about the time-axis resolver\<close>

text \<open>
  C1. For every integer time-step \<open>t\<close> such that the pre-built hourly reference calendar
  of either script contains the row \<open>t\<close>, the lookup \<^verbatim>\<open>ERA5DateIndex.loc[t][0]\<close> returns
  the timestamp of the epoch 1900-01-01 00:00:00 plus \<open>t\<close> hours.
\<close>

theorem resolve_is_epoch_plus_hours:
  "has_row (ERA5DateIndex sc) t \<Longrightarrow> resolve (ERA5DateIndex sc) t = Inr (epoch + t * Hour)"
  by (simp add: resolve_calendar has_row_calendar)

theorem resolve_is_epoch_plus_hours_witness:
  "has_row (ERA5DateIndex ERA5_To_SHETRAN) 24 \<and>
   resolve (ERA5DateIndex ERA5_To_SHETRAN) 24 = Inr (pd_Timestamp 1900 1 2 0 0 0)"
proof -
  have h: "has_row (ERA5DateIndex ERA5_To_SHETRAN) 24"
    by (simp add: has_row_calendar last_label_value)
  have "epoch + 24 * Hour = pd_Timestamp 1900 1 2 0 0 0"
    by (simp add: epoch_def calendar_defs)
  with h resolve_is_epoch_plus_hours [OF h] show ?thesis
    by simp
qed

text \<open>
  C2, as stated, does not hold: the time-step 876600 does not resolve to
  2000-01-01 00:00:00. From 1900-01-01 to 2000-01-01 there are 36524 days (1900 is not a
  leap year), which is 876576 hours.
\<close>

theorem resolve_876600_not_2000_01_01:
  "resolve (ERA5DateIndex ERA5_To_SHETRAN) 876600 \<noteq> Inr (pd_Timestamp 2000 1 1 0 0 0)"
  by (simp add: resolve_calendar last_label_value epoch_value calendar_defs)

text \<open>
  C2, amended. In both scripts the time-step 876600 resolves to 2000-01-02 00:00:00; the
  time-step that resolves to 2000-01-01 00:00:00 is 876576.
\<close>

theorem resolve_876600:
  "resolve (ERA5DateIndex sc) 876600 = Inr (pd_Timestamp 2000 1 2 0 0 0) \<and>
   resolve (ERA5DateIndex sc) 876576 = Inr (pd_Timestamp 2000 1 1 0 0 0)"
  by (cases sc)
     (simp_all add: resolve_calendar last_label_value epoch_value calendar_defs)

subsection \<open>The boundary indices\<close>

text \<open>
  The index expression unfolds along the list of timestamps: it returns the position of
  the first timestamp equal to the boundary.
\<close>


lemma index_mask_Nil: "index_mask [] = []"
  by (simp add: index_mask_def)

lemma index_mask_Cons:
  "index_mask (b # bs) = (if b then [0] else []) @ map Suc (index_mask bs)"
proof -
  have "[0..<length (b # bs)] = 0 # map Suc [0..<length bs]"
    by (simp add: upt_conv_Cons map_Suc_upt del: upt_Suc)
  then show ?thesis
    by (simp add: index_mask_def filter_map comp_def del: upt_Suc)
qed

lemma boundary_index_Nil: "boundary_index (DfTimeIndex []) b = Inl IndexError"
  by (simp add: boundary_index_def DfTimeIndex_def pd_DataFrame_columns_def df_getitem_def
      index_mask_Nil list_getitem_def)

lemma list_getitem_0: "list_getitem xs 0 = (case xs of [] \<Rightarrow> Inl IndexError | x # _ \<Rightarrow> Inr x)"
  by (cases xs) (simp_all add: list_getitem_def)

lemma boundary_index_list:
  "boundary_index (DfTimeIndex ti) b = list_getitem (index_mask (map (\<lambda>x. x = b) ti)) 0"
  by (simp add: boundary_index_def DfTimeIndex_def pd_DataFrame_columns_def df_getitem_def)

lemma boundary_index_Cons:
  "boundary_index (DfTimeIndex (x # xs)) b =
     (if x = b then Inr 0 else map_sum id Suc (boundary_index (DfTimeIndex xs) b))"
  by (simp add: boundary_index_list index_mask_Cons list_getitem_0 split: list.split)

lemma boundary_index_first:
  "boundary_index (DfTimeIndex ti) b = Inr i \<longleftrightarrow>
     i < length ti \<and> ti ! i = b \<and> (\<forall>j<i. ti ! j \<noteq> b)"
proof (induction ti arbitrary: i)
  case Nil
  show ?case by (simp add: boundary_index_Nil)
next
  case (Cons x xs)
  show ?case
  proof (cases "x = b")
    case True
    then show ?thesis by (auto simp: boundary_index_Cons)
  next
    case False
    show ?thesis
    proof (cases i)
      case 0
      with False show ?thesis
        by (cases "boundary_index (DfTimeIndex xs) b") (auto simp: boundary_index_Cons)
    next
      case (Suc k)
      have "(\<forall>j<Suc k. (x # xs) ! j \<noteq> b) \<longleftrightarrow> (\<forall>j<k. xs ! j \<noteq> b)"
        using False by (auto simp: less_Suc_eq_0_disj)
      with False Suc Cons.IH [of k] show ?thesis
        by (cases "boundary_index (DfTimeIndex xs) b") (auto simp: boundary_index_Cons)
    qed
  qed
qed

lemma boundary_index_absent:
  "b \<notin> set ti \<Longrightarrow> boundary_index (DfTimeIndex ti) b = Inl IndexError"
proof (induction ti)
  case Nil
  show ?case by (simp add: boundary_index_Nil)
next
  case (Cons x xs)
  then show ?case by (simp add: boundary_index_Cons)
qed

lemma boundary_index_present:
  "b \<in> set ti \<Longrightarrow> \<exists>i. boundary_index (DfTimeIndex ti) b = Inr i"
proof (induction ti)
  case Nil
  then show ?case by simp
next
  case (Cons x xs)
  then show ?case by (cases "x = b") (auto simp: boundary_index_Cons)
qed


lemma sorted_bounds:
  "sorted xs \<Longrightarrow> x \<in> set xs \<Longrightarrow> hd xs \<le> x \<and> x \<le> last xs"
  for x :: int
proof (induction xs)
  case Nil
  then show ?case by simp
next
  case (Cons y ys)
  then show ?case by (cases ys) auto
qed

lemma list_getitem_first: "ti \<noteq> [] \<Longrightarrow> list_getitem ti 0 = Inr (ti ! 0)"
  by (simp add: list_getitem_def)

lemma list_getitem_last: "ti \<noteq> [] \<Longrightarrow> list_getitem ti (- 1) = Inr (ti ! (length ti - 1))"
  by (cases ti rule: rev_cases) (simp_all add: list_getitem_def)

lemma list_getitem_empty: "list_getitem [] i = Inl IndexError"
  by (simp add: list_getitem_def)

lemma boundaries_Land_distinct:
  assumes "ti \<noteq> []" and "distinct ti"
  shows "boundaries ERA5_Land_To_SHETRAN ti = Inr (0, length ti - 1)"
proof -
  have "boundary_index (DfTimeIndex ti) (ti ! 0) = Inr 0"
    using assms by (simp add: boundary_index_first)
  moreover have "boundary_index (DfTimeIndex ti) (ti ! (length ti - 1)) = Inr (length ti - 1)"
    using assms by (auto simp: boundary_index_first nth_eq_iff_index_eq)
  ultimately show ?thesis
    using assms by (simp add: boundaries_def list_getitem_first list_getitem_last)
qed

lemma TimeIndex_strict:
  assumes "sorted_wrt (<) time" and "TimeIndex (ERA5DateIndex sc) time = Inr ti"
  shows "sorted_wrt (<) ti \<and> length ti = length time"
proof -
  from assms(2) have ti: "ti = map (\<lambda>t. epoch + t * Hour) time"
    by (simp add: TimeIndex_calendar split: if_splits)
  have "sorted_wrt (\<lambda>x y. epoch + x * Hour < epoch + y * Hour) time"
    using assms(1) by (simp add: Hour_def Second_def)
  then show ?thesis
    by (simp add: ti sorted_wrt_map)
qed

subsection \<open>Claims about resolving the whole time axis\<close>

text \<open>
  C3, as stated, does not hold: that the calendar extends as far as the file's last
  time-step is not enough. On the increasing time axis \<open>-1, 876576\<close> (one hour before
  the epoch, then 2000-01-01 00:00) the calendar of \<^verbatim>\<open>ERA5-To-SHETRAN.py\<close> reaches
  beyond the last time-step, and yet the lookup of \<open>-1\<close>, and with it the loop, fails
  with \<open>KeyError\<close>: the calendar starts at the epoch and has no row before it.
\<close>

theorem time_step_before_epoch_not_resolved:
  "sorted [- 1, 876576 :: int] \<and>
   epoch + last [- 1, 876576] * Hour \<le> calendar_end ERA5_To_SHETRAN \<and>
   resolve (ERA5DateIndex ERA5_To_SHETRAN) (- 1) = Inl KeyError \<and>
   TimeIndex (ERA5DateIndex ERA5_To_SHETRAN) [- 1, 876576] = Inl KeyError"
  by (simp add: resolve_calendar TimeIndex_calendar last_label_value epoch_value
      calendar_end_value Hour_def Second_def del: calendar_end.simps)

text \<open>
  C3, amended. When the time axis of the file is increasing, its first time-step is not
  negative, and the reference calendar of the script extends at least as far as the
  file's last time-step, the loop resolves every time-step: it returns exactly the list
  of the timestamps epoch plus \<open>t\<close> hours, one for each time-step \<open>t\<close> of the file and in
  the file's order, and every single lookup returns that timestamp. A time-step of the
  file that lies beyond the end of the calendar (2022-01-01 00:00:00 in
  \<^verbatim>\<open>ERA5-To-SHETRAN.py\<close>, 2030-01-01 00:00:00 in \<^verbatim>\<open>ERA5-Land-To-SHETRAN.py\<close>), or
  that is negative, makes its lookup, and with it the whole loop, fail with \<open>KeyError\<close>.
\<close>

theorem calendar_covers_time_axis:
  "(sorted time \<and> 0 \<le> hd time \<and> epoch + last time * Hour \<le> calendar_end sc \<longrightarrow>
      TimeIndex (ERA5DateIndex sc) time = Inr (map (\<lambda>t. epoch + t * Hour) time) \<and>
      (\<forall>t\<in>set time. resolve (ERA5DateIndex sc) t = Inr (epoch + t * Hour))) \<and>
   (t \<in> set later \<and> calendar_end sc < epoch + t * Hour \<longrightarrow>
      resolve (ERA5DateIndex sc) t = Inl KeyError \<and>
      TimeIndex (ERA5DateIndex sc) later = Inl KeyError) \<and>
   (u \<in> set earlier \<and> u < 0 \<longrightarrow>
      resolve (ERA5DateIndex sc) u = Inl KeyError \<and>
      TimeIndex (ERA5DateIndex sc) earlier = Inl KeyError)"
proof (intro conjI)
  show "sorted time \<and> 0 \<le> hd time \<and> epoch + last time * Hour \<le> calendar_end sc \<longrightarrow>
      TimeIndex (ERA5DateIndex sc) time = Inr (map (\<lambda>t. epoch + t * Hour) time) \<and>
      (\<forall>t\<in>set time. resolve (ERA5DateIndex sc) t = Inr (epoch + t * Hour))"
  proof
    assume a: "sorted time \<and> 0 \<le> hd time \<and> epoch + last time * Hour \<le> calendar_end sc"
    then have "last time \<le> last_label sc"
      using beyond_calendar_end [of sc "last time"] by simp
    with a have ok: "\<forall>t\<in>set time. 0 \<le> t \<and> t \<le> last_label sc"
      using sorted_bounds [of time] by fastforce
    then show "TimeIndex (ERA5DateIndex sc) time = Inr (map (\<lambda>t. epoch + t * Hour) time) \<and>
      (\<forall>t\<in>set time. resolve (ERA5DateIndex sc) t = Inr (epoch + t * Hour))"
      by (simp add: TimeIndex_calendar resolve_calendar)
  qed
next
  show "t \<in> set later \<and> calendar_end sc < epoch + t * Hour \<longrightarrow>
      resolve (ERA5DateIndex sc) t = Inl KeyError \<and>
      TimeIndex (ERA5DateIndex sc) later = Inl KeyError"
  proof
    assume a: "t \<in> set later \<and> calendar_end sc < epoch + t * Hour"
    then have "last_label sc < t"
      by (simp add: beyond_calendar_end)
    moreover from this a have "\<not> (\<forall>t\<in>set later. 0 \<le> t \<and> t \<le> last_label sc)"
      by force
    ultimately show "resolve (ERA5DateIndex sc) t = Inl KeyError \<and>
      TimeIndex (ERA5DateIndex sc) later = Inl KeyError"
      by (simp add: resolve_calendar TimeIndex_calendar)
  qed
next
  show "u \<in> set earlier \<and> u < 0 \<longrightarrow>
      resolve (ERA5DateIndex sc) u = Inl KeyError \<and>
      TimeIndex (ERA5DateIndex sc) earlier = Inl KeyError"
  proof
    assume a: "u \<in> set earlier \<and> u < 0"
    then have "\<not> (\<forall>t\<in>set earlier. 0 \<le> t \<and> t \<le> last_label sc)"
      by force
    with a show "resolve (ERA5DateIndex sc) u = Inl KeyError \<and>
      TimeIndex (ERA5DateIndex sc) earlier = Inl KeyError"
      by (simp add: resolve_calendar TimeIndex_calendar)
  qed
qed

theorem calendar_covers_time_axis_witness:
  "(sorted [876576, 876600 :: int] \<and> 0 \<le> hd [876576, 876600 :: int] \<and>
    epoch + last [876576, 876600] * Hour \<le> calendar_end ERA5_To_SHETRAN) \<and>
   TimeIndex (ERA5DateIndex ERA5_To_SHETRAN) [876576, 876600]
     = Inr [epoch + 876576 * Hour, epoch + 876600 * Hour] \<and>
   resolve (ERA5DateIndex ERA5_To_SHETRAN) 876600 = Inr (epoch + 876600 * Hour) \<and>
   (1139568 \<in> set [876576, 1139568 :: int] \<and>
    calendar_end ERA5_To_SHETRAN < epoch + 1139568 * Hour) \<and>
   resolve (ERA5DateIndex ERA5_To_SHETRAN) 1139568 = Inl KeyError \<and>
   TimeIndex (ERA5DateIndex ERA5_To_SHETRAN) [876576, 1139568] = Inl KeyError \<and>
   (- 24 \<in> set [- 24, 876576 :: int] \<and> (- 24 :: int) < 0) \<and>
   resolve (ERA5DateIndex ERA5_To_SHETRAN) (- 24) = Inl KeyError \<and>
   TimeIndex (ERA5DateIndex ERA5_To_SHETRAN) [- 24, 876576] = Inl KeyError"
proof -
  have h1: "sorted [876576, 876600 :: int] \<and> 0 \<le> hd [876576, 876600 :: int] \<and>
    epoch + last [876576, 876600] * Hour \<le> calendar_end ERA5_To_SHETRAN"
    by (simp add: epoch_value calendar_end_value Hour_def Second_def del: calendar_end.simps)
  have h2: "1139568 \<in> set [876576, 1139568 :: int] \<and>
    calendar_end ERA5_To_SHETRAN < epoch + 1139568 * Hour"
    by (simp add: epoch_value calendar_end_value Hour_def Second_def del: calendar_end.simps)
  have h3: "- 24 \<in> set [- 24, 876576 :: int] \<and> (- 24 :: int) < 0"
    by simp
  from calendar_covers_time_axis
    [of "[876576, 876600]" ERA5_To_SHETRAN 1139568 "[876576, 1139568]" "- 24"
        "[- 24, 876576]"] h1 h2 h3
  show ?thesis by simp
qed

text \<open>
  C8. Resolving a time-step again gives the same timestamp: when the loop has resolved
  the time axis and a time-step value occurs at two positions of it (so that it is
  looked up in two iterations, the second after other lookups), both positions of the
  result hold the same timestamp, which is also what a single lookup of that value
  returns.
\<close>

theorem resolve_again_same_timestamp:
  assumes "TimeIndex (ERA5DateIndex sc) time = Inr ti"
    and "i < length time" and "j < length time" and "time ! i = time ! j"
  shows "ti ! i = ti ! j \<and> resolve (ERA5DateIndex sc) (time ! i) = Inr (ti ! i) \<and>
         resolve (ERA5DateIndex sc) (time ! j) = Inr (ti ! j)"
proof -
  from assms(1) have ti: "ti = map (\<lambda>t. epoch + t * Hour) time"
    and ok: "\<forall>t\<in>set time. 0 \<le> t \<and> t \<le> last_label sc"
    by (simp_all add: TimeIndex_calendar split: if_splits)
  from ok assms(2,3) have "0 \<le> time ! i \<and> time ! i \<le> last_label sc"
    and "0 \<le> time ! j \<and> time ! j \<le> last_label sc"
    by simp_all
  with assms(2-) show ?thesis
    by (simp add: ti resolve_calendar)
qed

theorem resolve_again_same_timestamp_witness:
  "TimeIndex (ERA5DateIndex ERA5_To_SHETRAN) [876576, 876600, 876576]
     = Inr [pd_Timestamp 2000 1 1 0 0 0, pd_Timestamp 2000 1 2 0 0 0,
            pd_Timestamp 2000 1 1 0 0 0] \<and>
   [876576, 876600, 876576 :: int] ! 0 = [876576, 876600, 876576] ! 2 \<and>
   [pd_Timestamp 2000 1 1 0 0 0, pd_Timestamp 2000 1 2 0 0 0,
    pd_Timestamp 2000 1 1 0 0 0] ! 0 =
   [pd_Timestamp 2000 1 1 0 0 0, pd_Timestamp 2000 1 2 0 0 0,
    pd_Timestamp 2000 1 1 0 0 0] ! 2"
proof -
  let ?time = "[876576, 876600, 876576 :: int]"
  let ?ti = "[pd_Timestamp 2000 1 1 0 0 0, pd_Timestamp 2000 1 2 0 0 0,
              pd_Timestamp 2000 1 1 0 0 0]"
  have h1: "TimeIndex (ERA5DateIndex ERA5_To_SHETRAN) ?time = Inr ?ti"
    by (simp add: TimeIndex_calendar last_label_value epoch_value calendar_defs)
  have h2: "0 < length ?time" and h3: "2 < length ?time" and h4: "?time ! 0 = ?time ! 2"
    by simp_all
  from resolve_again_same_timestamp [OF h1 h2 h3 h4] h1 h4 show ?thesis
    by blast
qed

text \<open>The index expression raises nothing but \<open>IndexError\<close>.\<close>

lemma boundary_index_error:
  "boundary_index (DfTimeIndex ti) b = Inl e \<Longrightarrow> e = IndexError"
  using boundary_index_absent [of b ti] boundary_index_present [of b ti]
  by (cases "b \<in> set ti") auto

lemma boundaries_absent:
  assumes "StartTime sc ti = Inr b \<or> EndTime sc ti = Inr b" and "b \<notin> set ti"
  shows "boundaries sc ti = Inl IndexError"
proof (cases sc)
  case ERA5_To_SHETRAN
  show ?thesis
  proof (cases "boundary_index (DfTimeIndex ti) (pd_Timestamp 2000 1 1 0 0 0)")
    case (Inl e)
    then show ?thesis
      using boundary_index_error [OF Inl] ERA5_To_SHETRAN by (simp add: boundaries_def)
  next
    case (Inr i)
    then have "pd_Timestamp 2000 1 1 0 0 0 \<in> set ti"
      using boundary_index_absent [of "pd_Timestamp 2000 1 1 0 0 0" ti] by auto
    with assms ERA5_To_SHETRAN have "b = pd_Timestamp 2010 1 1 0 0 0"
      by auto
    with assms(2) have "boundary_index (DfTimeIndex ti) (pd_Timestamp 2010 1 1 0 0 0) = Inl IndexError"
      by (simp add: boundary_index_absent)
    with Inr ERA5_To_SHETRAN show ?thesis
      by (simp add: boundaries_def)
  qed
next
  case ERA5_Land_To_SHETRAN
  with assms(1) have "b \<in> set ti"
    by (auto simp: list_getitem_def split: if_splits)
  with assms(2) show ?thesis by simp
qed

subsection \<open>Claims about the boundary indices\<close>

text \<open>
  C4. For every boundary timestamp that is not in the resolved sequence, the index
  expression raises \<open>IndexError\<close>, which is of the \<open>LookupError\<close> class; it returns no
  index at all, so in particular not the index of a nearest timestamp. In both scripts,
  when the start or the end timestamp is not in the resolved sequence, the computation
  of \<open>StartIdx\<close> and \<open>EndIdx\<close> ends with that \<open>IndexError\<close>.
\<close>

theorem absent_boundary_raises_IndexError:
  "b \<notin> set ti \<Longrightarrow>
   boundary_index (DfTimeIndex ti) b = Inl IndexError \<and> LookupError_class IndexError \<and>
   (\<forall>i. boundary_index (DfTimeIndex ti) b \<noteq> Inr i) \<and>
   (StartTime sc ti = Inr b \<or> EndTime sc ti = Inr b \<longrightarrow>
      boundaries sc ti = Inl IndexError)"
  using boundaries_absent [of sc ti b] by (simp add: boundary_index_absent)

theorem absent_boundary_raises_IndexError_witness:
  "pd_Timestamp 2000 1 1 0 0 0 \<notin> set [epoch, epoch + Hour] \<and>
   StartTime ERA5_To_SHETRAN [epoch, epoch + Hour] = Inr (pd_Timestamp 2000 1 1 0 0 0) \<and>
   boundary_index (DfTimeIndex [epoch, epoch + Hour]) (pd_Timestamp 2000 1 1 0 0 0)
     = Inl IndexError \<and>
   boundaries ERA5_To_SHETRAN [epoch, epoch + Hour] = Inl IndexError"
proof -
  have h: "pd_Timestamp 2000 1 1 0 0 0 \<notin> set [epoch, epoch + Hour]"
    by (simp add: epoch_def calendar_defs)
  have h': "StartTime ERA5_To_SHETRAN [epoch, epoch + Hour]
    = Inr (pd_Timestamp 2000 1 1 0 0 0)"
    by simp
  from h h' absent_boundary_raises_IndexError [OF h, of ERA5_To_SHETRAN] show ?thesis
    by blast
qed

text \<open>
  C5. For a resolved sequence of consecutive hourly timestamps
  \<open>t0, t0 + 1h, t0 + 2h, ...\<close> (with at least three entries), the boundary timestamp
  \<open>t0 + 2h\<close> has the index 2.
\<close>

theorem boundary_index_of_third_hour:
  "2 < length ti \<Longrightarrow> \<forall>k<length ti. ti ! k = t0 + int k * Hour \<Longrightarrow>
   boundary_index (DfTimeIndex ti) (t0 + 2 * Hour) = Inr 2"
  by (simp add: boundary_index_first Hour_def Second_def)

theorem boundary_index_of_third_hour_witness:
  "2 < length [epoch, epoch + Hour, epoch + 2 * Hour, epoch + 3 * Hour] \<and>
   boundary_index (DfTimeIndex [epoch, epoch + Hour, epoch + 2 * Hour, epoch + 3 * Hour])
     (epoch + 2 * Hour) = Inr 2"
proof -
  let ?ti = "[epoch, epoch + Hour, epoch + 2 * Hour, epoch + 3 * Hour]"
  have h1: "2 < length ?ti" by simp
  have h2: "\<forall>k<length ?ti. ?ti ! k = epoch + int k * Hour"
    by (simp add: All_less_Suc)
  from h1 h2 boundary_index_of_third_hour [OF h1 h2] show ?thesis
    by blast
qed

text \<open>
  C10. In \<^verbatim>\<open>ERA5-Land-To-SHETRAN.py\<close>, where \<open>StartTime\<close> is the first and \<open>EndTime\<close> the
  last resolved timestamp: when the time-steps of the file are strictly increasing (and
  there is at least one, and all were resolved), \<open>StartIdx\<close> is 0 and \<open>EndIdx\<close> is the
  length of the resolved sequence minus 1. In general, for a boundary timestamp that
  occurs in a sequence, possibly several times, the index expression returns the first
  position where it occurs.
\<close>

theorem Land_boundaries_first_and_last:
  "(sorted_wrt (<) time \<and> time \<noteq> [] \<and>
    TimeIndex (ERA5DateIndex ERA5_Land_To_SHETRAN) time = Inr ti \<longrightarrow>
      boundaries ERA5_Land_To_SHETRAN ti = Inr (0, length ti - 1)) \<and>
   (b \<in> set xs \<longrightarrow>
      (\<exists>i. boundary_index (DfTimeIndex xs) b = Inr i \<and> i < length xs \<and> xs ! i = b \<and>
           (\<forall>j<i. xs ! j \<noteq> b)))"
proof (rule conjI; rule impI)
  assume a: "sorted_wrt (<) time \<and> time \<noteq> [] \<and>
    TimeIndex (ERA5DateIndex ERA5_Land_To_SHETRAN) time = Inr ti"
  then have "sorted_wrt (<) ti" and "length ti = length time"
    using TimeIndex_strict [of time ERA5_Land_To_SHETRAN ti] by simp_all
  with a have "distinct ti" and "ti \<noteq> []"
    by (auto simp: strict_sorted_iff)
  then show "boundaries ERA5_Land_To_SHETRAN ti = Inr (0, length ti - 1)"
    by (simp add: boundaries_Land_distinct)
next
  assume "b \<in> set xs"
  then obtain i where "boundary_index (DfTimeIndex xs) b = Inr i"
    using boundary_index_present by blast
  then show "\<exists>i. boundary_index (DfTimeIndex xs) b = Inr i \<and> i < length xs \<and> xs ! i = b \<and>
           (\<forall>j<i. xs ! j \<noteq> b)"
    using boundary_index_first [of xs b i] by blast
qed

theorem Land_boundaries_first_and_last_witness:
  "(sorted_wrt (<) [876576, 876600, 876624 :: int] \<and> [876576, 876600, 876624 :: int] \<noteq> [] \<and>
    TimeIndex (ERA5DateIndex ERA5_Land_To_SHETRAN) [876576, 876600, 876624]
      = Inr [epoch + 876576 * Hour, epoch + 876600 * Hour, epoch + 876624 * Hour]) \<and>
   boundaries ERA5_Land_To_SHETRAN
     [epoch + 876576 * Hour, epoch + 876600 * Hour, epoch + 876624 * Hour] = Inr (0, 2) \<and>
   epoch + Hour \<in> set [epoch, epoch + Hour, epoch + Hour] \<and>
   boundary_index (DfTimeIndex [epoch, epoch + Hour, epoch + Hour]) (epoch + Hour) = Inr 1"
proof -
  let ?time = "[876576, 876600, 876624 :: int]"
  let ?ti = "[epoch + 876576 * Hour, epoch + 876600 * Hour, epoch + 876624 * Hour]"
  let ?xs = "[epoch, epoch + Hour, epoch + Hour]"
  have h1: "sorted_wrt (<) ?time \<and> ?time \<noteq> [] \<and>
    TimeIndex (ERA5DateIndex ERA5_Land_To_SHETRAN) ?time = Inr ?ti"
    by (simp add: TimeIndex_calendar last_label_value)
  have h2: "epoch + Hour \<in> set ?xs"
    by simp
  from Land_boundaries_first_and_last [of ?time ?ti "epoch + Hour" ?xs] h1 h2
  have a: "boundaries ERA5_Land_To_SHETRAN ?ti = Inr (0, length ?ti - 1)"
    and b: "\<exists>i. boundary_index (DfTimeIndex ?xs) (epoch + Hour) = Inr i \<and> i < length ?xs \<and>
         ?xs ! i = epoch + Hour \<and> (\<forall>j<i. ?xs ! j \<noteq> epoch + Hour)"
    by blast+
  from b obtain i where i: "boundary_index (DfTimeIndex ?xs) (epoch + Hour) = Inr i"
    "i < length ?xs" "\<forall>j<i. ?xs ! j \<noteq> epoch + Hour"
    by blast
  have "i = 1"
  proof (rule ccontr)
    assume "i \<noteq> 1"
    with i(2) have "i = 0 \<or> i = 2" by auto
    with i(1,3) show False
      by (auto simp: boundary_index_Cons Hour_def Second_def)
  qed
  with i(1) a h1 h2 show ?thesis by simp
qed

subsection \<open>The run of a script\<close>

text \<open>The script, statement by statement: where it can stop and what it has started by then.\<close>

lemma main_cases:
  "main sc cfg files P C =
    (case Dataset_open files (DirectoryIn cfg @ FileNameIn cfg @ ExtIn cfg) of
       Inl e \<Rightarrow> ([EvOpen], Inl e)
     | Inr ERA5 \<Rightarrow>
        (case (case time_variable ERA5 of Inl e \<Rightarrow> Inl e
               | Inr time \<Rightarrow> TimeIndex (ERA5DateIndex sc) time) of
           Inl e \<Rightarrow> ([EvOpen, EvResolve], Inl e)
         | Inr ti \<Rightarrow>
            (case boundaries sc ti of
               Inl e \<Rightarrow> ([EvOpen, EvResolve, EvBoundary], Inl e)
             | Inr idx \<Rightarrow>
                (case P (plotter_args ERA5) of
                   Inl e \<Rightarrow> ([EvOpen, EvResolve, EvBoundary, EvPlot], Inl e)
                 | Inr u \<Rightarrow>
                    (case C (converter_args sc cfg ERA5 ti) of
                       Inl e \<Rightarrow> ([EvOpen, EvResolve, EvBoundary, EvPlot, EvConvert], Inl e)
                     | Inr v \<Rightarrow>
                        (case Dataset_close ERA5 of
                           Inl e \<Rightarrow>
                             ([EvOpen, EvResolve, EvBoundary, EvPlot, EvConvert, EvClose], Inl e)
                         | Inr released \<Rightarrow>
                             ([EvOpen, EvResolve, EvBoundary, EvPlot, EvConvert, EvClose],
                              Inr \<lparr>f_ERA5 = released, f_TimeIndex = ti,
                                   f_StartIdx = fst idx, f_EndIdx = snd idx\<rparr>)))))))"
  by (simp add: main_def stmt_def split: sum.split)

lemma Dataset_open_isopen: "Dataset_open files path = Inr ds \<Longrightarrow> isopen ds"
  by (auto simp: Dataset_open_def split: option.splits)

lemma main_file_usage_ok: "file_usage_ok False (fst (main sc cfg files P C))"
  by (simp add: main_cases split: sum.split)

lemma main_stages_get_open_file:
  "main sc cfg files
      (\<lambda>a. if isopen (p_Data a) then P a else Inl RuntimeError)
      (\<lambda>a. if isopen (c_Data a) then C a else Inl RuntimeError)
    = main sc cfg files P C"
  by (auto simp: main_cases plotter_args_def converter_args_def
      dest: Dataset_open_isopen split: sum.split)

lemma main_completed:
  "snd (main sc cfg files P C) = Inr r \<Longrightarrow>
   fst (main sc cfg files P C) = [EvOpen, EvResolve, EvBoundary, EvPlot, EvConvert, EvClose] \<and>
   \<not> isopen (f_ERA5 r)"
  by (auto simp: main_cases Dataset_close_def split: sum.splits if_splits)

lemma convert_started_plot_returned:
  "EvConvert \<in> set (fst (main sc cfg files P C)) \<Longrightarrow>
   (case Dataset_open files (DirectoryIn cfg @ FileNameIn cfg @ ExtIn cfg) of
      Inl e \<Rightarrow> False
    | Inr ds \<Rightarrow> P (plotter_args ds) = Inr ())"
  by (auto simp: main_cases split: sum.splits)

lemma convert_started_trace:
  "EvConvert \<in> set (fst (main sc cfg files P C)) \<Longrightarrow>
   take 5 (fst (main sc cfg files P C)) = [EvOpen, EvResolve, EvBoundary, EvPlot, EvConvert]"
  by (auto simp: main_cases split: sum.splits)

text \<open>The runs on the sample inputs.\<close>

lemma sample_open:
  "Dataset_open sample_files
     (DirectoryIn sample_config @ FileNameIn sample_config @ ExtIn sample_config)
     = Inr \<lparr>isopen = True, variables = sample_variables\<rparr>"
  by (simp add: Dataset_open_def sample_files_def sample_config_def)

lemma sample_time:
  "time_variable \<lparr>isopen = True, variables = sample_variables\<rparr> = Inr [876576, 964248]"
  by (simp add: time_variable_def sample_variables_def)

lemma sample_TimeIndex:
  "TimeIndex (ERA5DateIndex sc) [876576, 964248]
     = Inr [946684800000000000, 1262304000000000000]"
  by (cases sc)
     (simp_all add: TimeIndex_calendar last_label_value epoch_value Hour_def Second_def)

lemma sample_boundaries:
  "boundaries sc [946684800000000000, 1262304000000000000] = Inr (0, 1)"
  by (cases sc)
     (simp_all add: boundaries_def boundary_index_Cons list_getitem_first list_getitem_last
        calendar_defs)

lemma sample_run:
  "main sc sample_config sample_files plotter_ok converter_ok =
     ([EvOpen, EvResolve, EvBoundary, EvPlot, EvConvert, EvClose],
      Inr \<lparr>f_ERA5 = \<lparr>isopen = False, variables = sample_variables\<rparr>,
           f_TimeIndex = [946684800000000000, 1262304000000000000],
           f_StartIdx = 0, f_EndIdx = 1\<rparr>)"
  by (simp add: main_cases sample_open sample_time sample_TimeIndex sample_boundaries
      plotter_ok_def converter_ok_def Dataset_close_def)

lemma sample_run_failing:
  "main sc sample_config sample_files plotter_failing converter_ok =
     ([EvOpen, EvResolve, EvBoundary, EvPlot], Inl (Failure ''plot''))"
  by (simp add: main_cases sample_open sample_time sample_TimeIndex sample_boundaries
      plotter_failing_def)

subsection \<open>Claims about the stages and the input file\<close>

text \<open>
  C7, as stated, does not hold: on the sample file, with a plotting routine that raises,
  the script ends with the routine's exception after the plot, and the conversion is
  not among the statements that were started.
\<close>

theorem plotter_failure_skips_conversion:
  "plotter_failing (plotter_args \<lparr>isopen = True, variables = sample_variables\<rparr>)
     = Inl (Failure ''plot'') \<and>
   main ERA5_To_SHETRAN sample_config sample_files plotter_failing converter_ok =
     ([EvOpen, EvResolve, EvBoundary, EvPlot], Inl (Failure ''plot'')) \<and>
   EvConvert \<notin> set (fst (main ERA5_To_SHETRAN sample_config sample_files
                            plotter_failing converter_ok))"
  by (simp add: sample_run_failing) (simp add: plotter_failing_def)

text \<open>
  C7, amended. The plot is started strictly before the conversion and is not
  interleaved with it, but a failure of the plot is not contained. In every run in which
  the plotting routine raises on the opened file, the script ends with an exception (the
  routine's own, when the plot was reached), and neither the conversion nor
  \<^verbatim>\<open>ERA5.close()\<close> is started. Whenever the conversion is started, the statements
  started up to it are the opening, the loop, the boundary indices, the plot and the
  conversion, in this order, and the plotting routine has returned normally.
\<close>

theorem plotter_failure_ends_script:
  "(Dataset_open files (DirectoryIn cfg @ FileNameIn cfg @ ExtIn cfg) = Inr ERA5 \<and>
    P (plotter_args ERA5) = Inl e \<longrightarrow>
      EvConvert \<notin> set (fst (main sc cfg files P C)) \<and>
      EvClose \<notin> set (fst (main sc cfg files P C)) \<and>
      isl (snd (main sc cfg files P C)) \<and>
      (EvPlot \<in> set (fst (main sc cfg files P C)) \<longrightarrow> snd (main sc cfg files P C) = Inl e)) \<and>
   (EvConvert \<in> set (fst (main sc' cfg' files' P' C')) \<longrightarrow>
      take 5 (fst (main sc' cfg' files' P' C'))
        = [EvOpen, EvResolve, EvBoundary, EvPlot, EvConvert] \<and>
      (\<exists>ds. Dataset_open files' (DirectoryIn cfg' @ FileNameIn cfg' @ ExtIn cfg') = Inr ds \<and>
            P' (plotter_args ds) = Inr ()))"
proof (rule conjI; rule impI)
  assume "Dataset_open files (DirectoryIn cfg @ FileNameIn cfg @ ExtIn cfg) = Inr ERA5 \<and>
    P (plotter_args ERA5) = Inl e"
  then show "EvConvert \<notin> set (fst (main sc cfg files P C)) \<and>
      EvClose \<notin> set (fst (main sc cfg files P C)) \<and>
      isl (snd (main sc cfg files P C)) \<and>
      (EvPlot \<in> set (fst (main sc cfg files P C)) \<longrightarrow> snd (main sc cfg files P C) = Inl e)"
    by (simp add: main_cases split: sum.split)
next
  assume "EvConvert \<in> set (fst (main sc' cfg' files' P' C'))"
  then show "take 5 (fst (main sc' cfg' files' P' C'))
        = [EvOpen, EvResolve, EvBoundary, EvPlot, EvConvert] \<and>
      (\<exists>ds. Dataset_open files' (DirectoryIn cfg' @ FileNameIn cfg' @ ExtIn cfg') = Inr ds \<and>
            P' (plotter_args ds) = Inr ())"
    using convert_started_plot_returned [of sc' cfg' files' P' C']
      convert_started_trace [of sc' cfg' files' P' C']
    by (auto split: sum.splits)
qed

theorem plotter_failure_ends_script_witness:
  "(Dataset_open sample_files
      (DirectoryIn sample_config @ FileNameIn sample_config @ ExtIn sample_config)
      = Inr \<lparr>isopen = True, variables = sample_variables\<rparr> \<and>
    plotter_failing (plotter_args \<lparr>isopen = True, variables = sample_variables\<rparr>)
      = Inl (Failure ''plot'')) \<and>
   EvConvert \<notin> set (fst (main ERA5_Land_To_SHETRAN sample_config sample_files
                            plotter_failing converter_ok)) \<and>
   EvClose \<notin> set (fst (main ERA5_Land_To_SHETRAN sample_config sample_files
                          plotter_failing converter_ok)) \<and>
   isl (snd (main ERA5_Land_To_SHETRAN sample_config sample_files
               plotter_failing converter_ok)) \<and>
   EvConvert \<in> set (fst (main ERA5_Land_To_SHETRAN sample_config sample_files
                            plotter_ok converter_ok)) \<and>
   take 5 (fst (main ERA5_Land_To_SHETRAN sample_config sample_files plotter_ok converter_ok))
     = [EvOpen, EvResolve, EvBoundary, EvPlot, EvConvert]"
proof -
  have h1: "Dataset_open sample_files
      (DirectoryIn sample_config @ FileNameIn sample_config @ ExtIn sample_config)
      = Inr \<lparr>isopen = True, variables = sample_variables\<rparr> \<and>
    plotter_failing (plotter_args \<lparr>isopen = True, variables = sample_variables\<rparr>)
      = Inl (Failure ''plot'')"
    by (simp add: sample_open plotter_failing_def)
  have h2: "EvConvert \<in> set (fst (main ERA5_Land_To_SHETRAN sample_config sample_files
                            plotter_ok converter_ok))"
    by (simp add: sample_run)
  from plotter_failure_ends_script
    [of sample_files sample_config "\<lparr>isopen = True, variables = sample_variables\<rparr>"
        plotter_failing "Failure ''plot''" ERA5_Land_To_SHETRAN converter_ok
        ERA5_Land_To_SHETRAN sample_config sample_files plotter_ok converter_ok]
    h1 h2
  show ?thesis by blast
qed

text \<open>
  C9. In every run, whatever the two routines do and wherever the run ends, the file is
  used correctly: it is opened by the first statement, before either stage, and every
  statement that reads it or is handed it (the loop, the plot, the conversion) is
  started while it is open; the two routines are only ever called with the open file,
  so replacing them by routines that refuse a closed file changes no run. In every run
  that completes, the statements started are the opening, the loop, the boundary
  indices, the plot, the conversion and the release, each once and in this order: the
  release is the last statement, after both stages, and it leaves the file closed.
\<close>

theorem file_open_through_both_stages:
  "file_usage_ok False (fst (main sc cfg files P C)) \<and>
   main sc cfg files
      (\<lambda>a. if isopen (p_Data a) then P a else Inl RuntimeError)
      (\<lambda>a. if isopen (c_Data a) then C a else Inl RuntimeError)
    = main sc cfg files P C \<and>
   (snd (main sc cfg files P C) = Inr r \<longrightarrow>
      fst (main sc cfg files P C)
        = [EvOpen, EvResolve, EvBoundary, EvPlot, EvConvert, EvClose] \<and>
      \<not> isopen (f_ERA5 r))"
  using main_file_usage_ok [of sc cfg files P C] main_stages_get_open_file [of sc cfg files P C]
    main_completed [of sc cfg files P C r]
  by blast

theorem file_open_through_both_stages_witness:
  "snd (main ERA5_To_SHETRAN sample_config sample_files plotter_ok converter_ok) =
     Inr \<lparr>f_ERA5 = \<lparr>isopen = False, variables = sample_variables\<rparr>,
           f_TimeIndex = [946684800000000000, 1262304000000000000],
           f_StartIdx = 0, f_EndIdx = 1\<rparr> \<and>
   fst (main ERA5_To_SHETRAN sample_config sample_files plotter_ok converter_ok) =
     [EvOpen, EvResolve, EvBoundary, EvPlot, EvConvert, EvClose]"
proof -
  have h: "snd (main ERA5_To_SHETRAN sample_config sample_files plotter_ok converter_ok) =
     Inr \<lparr>f_ERA5 = \<lparr>isopen = False, variables = sample_variables\<rparr>,
           f_TimeIndex = [946684800000000000, 1262304000000000000],
           f_StartIdx = 0, f_EndIdx = 1\<rparr>"
    by (simp add: sample_run)
  from file_open_through_both_stages
    [of ERA5_To_SHETRAN sample_config sample_files plotter_ok converter_ok] h
  show ?thesis by blast
qed

subsection \<open>The shape of the output table\<close>

lemma length_grid_row: "length (grid_row a nlat nlon u t) = nlat * nlon"
  by (simp add: grid_row_def length_concat comp_def sum_list_triv)

text \<open>
  What the scripts hand to the conversion routine: \<^verbatim>\<open>ERA5-To-SHETRAN.py\<close> passes no
  dates, and neither script passes \<open>StartIdx\<close> or \<open>EndIdx\<close>. In
  \<^verbatim>\<open>ERA5-Land-To-SHETRAN.py\<close>, for a strictly increasing time axis, the dates passed
  are as many as the time window \<open>EndIdx - StartIdx + 1\<close> is long.
\<close>

lemma converter_args_Dates:
  "c_Dates (converter_args ERA5_To_SHETRAN cfg ds ti) = None"
  "c_Dates (converter_args ERA5_Land_To_SHETRAN cfg ds ti) = Some ti"
  by (simp_all add: converter_args_def DfTimeIndex_def pd_DataFrame_columns_def)

lemma Land_Dates_length:
  assumes "sorted_wrt (<) time" and "time \<noteq> []"
    and "TimeIndex (ERA5DateIndex ERA5_Land_To_SHETRAN) time = Inr ti"
    and "boundaries ERA5_Land_To_SHETRAN ti = Inr (StartIdx, EndIdx)"
  shows "length ti = EndIdx - StartIdx + 1"
proof -
  from assms(1,3) have "sorted_wrt (<) ti" and "length ti = length time"
    using TimeIndex_strict [of time ERA5_Land_To_SHETRAN ti] by simp_all
  with assms(2) have "distinct ti" and "ti \<noteq> []"
    by (auto simp: strict_sorted_iff)
  then have "boundaries ERA5_Land_To_SHETRAN ti = Inr (0, length ti - 1)"
    by (rule boundaries_Land_distinct [rotated])
  with assms(4) have "StartIdx = 0" and "EndIdx = length ti - 1"
    by simp_all
  moreover from \<open>ti \<noteq> []\<close> have "0 < length ti"
    by simp
  ultimately show ?thesis
    by simp
qed

text \<open>
  C6. For a field of the file and a time window \<open>StartIdx \<le> EndIdx\<close> inside the time
  axis (and, in single-cell mode, a cell inside the grid), the conversion routine of
  the specification returns a table with exactly \<open>EndIdx - StartIdx + 1\<close> rows, each
  with one column in single-cell mode and with as many columns as the grid has cells
  in map mode.
\<close>

theorem table_shape:
  assumes "variables Data Variable = Some (Var3D nt nlat nlon a)"
    and "StartIdx \<le> EndIdx" and "EndIdx < nt"
    and "case mode of SingleCell i j \<Rightarrow> i < nlat \<and> j < nlon | FullGrid \<Rightarrow> True"
  shows "\<exists>tbl. NetCDFToSHETRAN_table Data Variable StartIdx EndIdx mode u = Inr tbl \<and>
           length tbl = EndIdx - StartIdx + 1 \<and>
           (\<forall>row\<in>set tbl. length row =
              (case mode of SingleCell i j \<Rightarrow> 1
               | FullGrid \<Rightarrow> grid_cells (Var3D nt nlat nlon a)))"
proof -
  from assms(2,3) have "min (Suc EndIdx) nt - StartIdx = EndIdx - StartIdx + 1"
    by simp
  with assms(1,4) show ?thesis
    by (cases mode) (auto simp: NetCDFToSHETRAN_table_def length_grid_row)
qed

theorem table_shape_witness:
  "(variables \<lparr>isopen = True, variables = sample_variables\<rparr> ''e''
      = Some (Var3D 2 2 3 sample_field) \<and>
    (0::nat) \<le> 1 \<and> (1::nat) < 2 \<and> (1::nat) < 2 \<and> (2::nat) < 3) \<and>
   (\<exists>tbl. NetCDFToSHETRAN_table \<lparr>isopen = True, variables = sample_variables\<rparr> ''e'' 0 1
            (SingleCell 1 2) 1000 = Inr tbl \<and>
          length tbl = 2 \<and> list_all (\<lambda>row. length row = 1) tbl) \<and>
   (\<exists>tbl. NetCDFToSHETRAN_table \<lparr>isopen = True, variables = sample_variables\<rparr> ''e'' 0 1
            FullGrid 1000 = Inr tbl \<and>
          length tbl = 2 \<and> list_all (\<lambda>row. length row = 6) tbl)"
proof -
  let ?ds = "\<lparr>isopen = True, variables = sample_variables\<rparr>"
  have h1: "variables ?ds ''e'' = Some (Var3D 2 2 3 sample_field)"
    by (simp add: sample_variables_def)
  have h2: "(0::nat) \<le> 1" and h3: "(1::nat) < 2"
    by simp_all
  have h4: "case SingleCell 1 2 of SingleCell i j \<Rightarrow> i < (2::nat) \<and> j < (3::nat)
            | FullGrid \<Rightarrow> True"
    by simp
  have h5: "case FullGrid of SingleCell i j \<Rightarrow> i < (2::nat) \<and> j < (3::nat)
            | FullGrid \<Rightarrow> True"
    by simp
  from table_shape [OF h1 h2 h3 h4, of 1000] table_shape [OF h1 h2 h3 h5, of 1000] h1
  show ?thesis by (auto simp: numeral_2_eq_2 list_all_iff)
qed

end
